theory Spec2Isabelle
  imports Complex_Main "HOL-Library.Sublist"
begin

section \<open>Values, exceptions and calendar dates\<close>

text \<open>
  The scheduler passes around the dictionary that \<^verbatim>\<open>json.loads\<close> made of the classifier's
  answer. Its values are Python values: \<^verbatim>\<open>None\<close>, booleans, numbers, strings, lists and
  dictionaries (association lists, looked up by key). Strings are byte strings: a
  non-ASCII character of the source is its UTF-8 bytes.
\<close>

datatype pyval =
    PNone
  | PBool bool
  | PInt int
  | PFloat real
  | PStr string
  | PList "pyval list"
  | PDict "(string \<times> pyval) list"

text \<open>Python's truth value of an object, as \<^verbatim>\<open>if x\<close> and \<^verbatim>\<open>not x\<close> read it.\<close>

fun truthy :: "pyval \<Rightarrow> bool" where
  "truthy PNone = False"
| "truthy (PBool b) = b"
| "truthy (PInt n) = (n \<noteq> 0)"
| "truthy (PFloat x) = (x \<noteq> 0)"
| "truthy (PStr s) = (s \<noteq> [])"
| "truthy (PList xs) = (xs \<noteq> [])"
| "truthy (PDict kvs) = (kvs \<noteq> [])"

text \<open>\<^verbatim>\<open>d.get(k)\<close> and \<^verbatim>\<open>d.get(k, default)\<close> on a dictionary.\<close>

definition dict_get :: "(string \<times> pyval) list \<Rightarrow> string \<Rightarrow> pyval" where
  "dict_get d k = (case map_of d k of None \<Rightarrow> PNone | Some v \<Rightarrow> v)"

definition dict_get_default :: "(string \<times> pyval) list \<Rightarrow> string \<Rightarrow> pyval \<Rightarrow> pyval" where
  "dict_get_default d k dflt = (case map_of d k of None \<Rightarrow> dflt | Some v \<Rightarrow> v)"

text \<open>
  The source tells two kinds of exception apart: the calendar client's \<^verbatim>\<open>HttpError\<close> and
  every other \<^verbatim>\<open>Exception\<close>. Each carries the text that \<^verbatim>\<open>str(e)\<close> yields.
\<close>

datatype exn = HttpError string | Exception string

fun exn_str :: "exn \<Rightarrow> string" where
  "exn_str (HttpError s) = s"
| "exn_str (Exception s) = s"

record pydate =
  year :: nat
  month :: nat
  day :: nat

record pytime =
  hour :: nat
  minute :: nat
  second :: nat
  microsecond :: nat

record pydatetime =
  dt_date :: pydate
  dt_time :: pytime

definition combine :: "pydate \<Rightarrow> pytime \<Rightarrow> pydatetime" where
  "combine d t = \<lparr>dt_date = d, dt_time = t\<rparr>"

definition is_leap :: "nat \<Rightarrow> bool" where
  "is_leap y = (y mod 4 = 0 \<and> (y mod 100 \<noteq> 0 \<or> y mod 400 = 0))"

definition days_in_month :: "nat \<Rightarrow> nat \<Rightarrow> nat" where
  "days_in_month y m =
     (if m = 2 then (if is_leap y then 29 else 28)
      else if m = 4 \<or> m = 6 \<or> m = 9 \<or> m = 11 then 30 else 31)"

text \<open>
  \<^verbatim>\<open>date + timedelta(days=1)\<close>. Python's dates end at 9999-12-31; one day more raises
  \<^verbatim>\<open>OverflowError\<close>.
\<close>

definition next_day :: "pydate \<Rightarrow> exn + pydate" where
  "next_day d =
     (if day d < days_in_month (year d) (month d) then Inr (d\<lparr>day := day d + 1\<rparr>)
      else if month d < 12 then Inr \<lparr>year = year d, month = month d + 1, day = 1\<rparr>
      else if year d < 9999 then Inr \<lparr>year = year d + 1, month = 1, day = 1\<rparr>
      else Inl (Exception ''date value out of range''))"

subsection \<open>\<^verbatim>\<open>datetime.strptime\<close> for the two formats of the scheduler\<close>

text \<open>
  CPython turns a format into a regular expression, matches it at the start of the text
  (alternatives tried left to right, backtracking into the next one when the rest of the
  pattern fails), and raises \<^verbatim>\<open>ValueError\<close> when nothing matches or when text is left over.
  The directives used here are
  \<^verbatim>\<open>%Y = \d\d\d\d\<close>, \<^verbatim>\<open>%m = 1[0-2]|0[1-9]|[1-9]\<close>,
  \<^verbatim>\<open>%d = 3[0-1]|[1-2]\d|0[1-9]|[1-9]| [1-9]\<close>, \<^verbatim>\<open>%H = 2[0-3]|[0-1]\d|\d\<close> and
  \<^verbatim>\<open>%M = [0-5]\d|\d\<close>. Each function below lists the ways one directive can match a
  prefix, in the order the matcher tries them: the value read and the text left.
  Digits are the ASCII digits.
\<close>

definition digit_of :: "char \<Rightarrow> nat option" where
  "digit_of c =
     (let n = (of_char c :: nat) in if 48 \<le> n \<and> n \<le> 57 then Some (n - 48) else None)"

definition d1 :: "(nat \<Rightarrow> bool) \<Rightarrow> string \<Rightarrow> (nat \<times> string) list" where
  "d1 p s =
     (case s of
        a # r \<Rightarrow> (case digit_of a of Some x \<Rightarrow> if p x then [(x, r)] else [] | None \<Rightarrow> [])
      | [] \<Rightarrow> [])"

definition d2 :: "(nat \<Rightarrow> bool) \<Rightarrow> (nat \<Rightarrow> bool) \<Rightarrow> string \<Rightarrow> (nat \<times> string) list" where
  "d2 p q s =
     (case s of
        a # b # r \<Rightarrow>
          (case (digit_of a, digit_of b) of
             (Some x, Some y) \<Rightarrow> if p x \<and> q y then [(10 * x + y, r)] else []
           | _ \<Rightarrow> [])
      | _ \<Rightarrow> [])"

definition lit :: "char \<Rightarrow> string \<Rightarrow> string list" where
  "lit c s = (case s of a # r \<Rightarrow> if a = c then [r] else [] | [] \<Rightarrow> [])"

definition regex_Y :: "string \<Rightarrow> (nat \<times> string) list" where
  "regex_Y s =
     concat (map (\<lambda>(hi, r). map (\<lambda>(lo, r'). (100 * hi + lo, r')) (d2 (\<lambda>_. True) (\<lambda>_. True) r))
       (d2 (\<lambda>_. True) (\<lambda>_. True) s))"

definition regex_m :: "string \<Rightarrow> (nat \<times> string) list" where
  "regex_m s = d2 (\<lambda>x. x = 1) (\<lambda>y. y \<le> 2) s @ d2 (\<lambda>x. x = 0) (\<lambda>y. 1 \<le> y) s @ d1 (\<lambda>x. 1 \<le> x) s"

definition regex_d :: "string \<Rightarrow> (nat \<times> string) list" where
  "regex_d s =
     d2 (\<lambda>x. x = 3) (\<lambda>y. y \<le> 1) s @ d2 (\<lambda>x. 1 \<le> x \<and> x \<le> 2) (\<lambda>_. True) s
     @ d2 (\<lambda>x. x = 0) (\<lambda>y. 1 \<le> y) s @ d1 (\<lambda>x. 1 \<le> x) s
     @ concat (map (d1 (\<lambda>x. 1 \<le> x)) (lit CHR '' '' s))"

definition regex_H :: "string \<Rightarrow> (nat \<times> string) list" where
  "regex_H s = d2 (\<lambda>x. x = 2) (\<lambda>y. y \<le> 3) s @ d2 (\<lambda>x. x \<le> 1) (\<lambda>_. True) s @ d1 (\<lambda>_. True) s"

definition regex_M :: "string \<Rightarrow> (nat \<times> string) list" where
  "regex_M s = d2 (\<lambda>x. x \<le> 5) (\<lambda>_. True) s @ d1 (\<lambda>_. True) s"

text \<open>\<^verbatim>\<open>datetime.strptime(s, '%H:%M').time()\<close>; an argument that is not a string raises \<^verbatim>\<open>TypeError\<close>.\<close>

definition match_HM :: "string \<Rightarrow> (nat \<times> nat \<times> string) list" where
  "match_HM s =
     concat (map (\<lambda>(h, r0).
       concat (map (\<lambda>r1. map (\<lambda>(m, r2). (h, m, r2)) (regex_M r1)) (lit CHR '':'' r0)))
       (regex_H s))"

definition strptime_time :: "pyval \<Rightarrow> exn + pytime" where
  "strptime_time v =
     (case v of
        PStr s \<Rightarrow>
          (case match_HM s of
             [] \<Rightarrow> Inl (Exception ''time data does not match format'')
           | (h, m, rest) # _ \<Rightarrow>
               if rest = [] then Inr \<lparr>hour = h, minute = m, second = 0, microsecond = 0\<rparr>
               else Inl (Exception ''unconverted data remains''))
      | _ \<Rightarrow> Inl (Exception ''strptime() argument 1 must be str''))"

text \<open>
  \<^verbatim>\<open>datetime.strptime(s, '%Y-%m-%d').date()\<close>; the date constructor refuses year 0 and a
  day the month does not have.
\<close>

definition match_Ymd :: "string \<Rightarrow> (nat \<times> nat \<times> nat \<times> string) list" where
  "match_Ymd s =
     concat (map (\<lambda>(y, r0).
       concat (map (\<lambda>r1.
         concat (map (\<lambda>(m, r2).
           concat (map (\<lambda>r3. map (\<lambda>(d, r4). (y, m, d, r4)) (regex_d r3)) (lit CHR ''-'' r2)))
           (regex_m r1))) (lit CHR ''-'' r0)))
       (regex_Y s))"

definition strptime_date :: "pyval \<Rightarrow> exn + pydate" where
  "strptime_date v =
     (case v of
        PStr s \<Rightarrow>
          (case match_Ymd s of
             [] \<Rightarrow> Inl (Exception ''time data does not match format'')
           | (y, m, d, rest) # _ \<Rightarrow>
               if rest \<noteq> [] then Inl (Exception ''unconverted data remains'')
               else if y < 1 then Inl (Exception ''year 0 is out of range'')
               else if days_in_month y m < d then Inl (Exception ''day is out of range for month'')
               else Inr \<lparr>year = y, month = m, day = d\<rparr>)
      | _ \<Rightarrow> Inl (Exception ''strptime() argument 1 must be str''))"

subsection \<open>Formatting\<close>

text \<open>
  \<^verbatim>\<open>isoformat()\<close> of dates and datetimes, and \<^verbatim>\<open>strftime('%Y-%m-%d %H:%M')\<close> (years
  written with four digits).
\<close>

definition digit_char :: "nat \<Rightarrow> char" where
  "digit_char n = char_of (48 + n mod 10)"

definition dec2 :: "nat \<Rightarrow> string" where
  "dec2 n = [digit_char (n div 10), digit_char n]"

definition dec4 :: "nat \<Rightarrow> string" where
  "dec4 n = dec2 (n div 100) @ dec2 n"

definition dec6 :: "nat \<Rightarrow> string" where
  "dec6 n = dec2 (n div 10000) @ dec4 n"

definition date_isoformat :: "pydate \<Rightarrow> string" where
  "date_isoformat d = dec4 (year d) @ ''-'' @ dec2 (month d) @ ''-'' @ dec2 (day d)"

definition isoformat :: "pydatetime \<Rightarrow> string" where
  "isoformat dt =
     (let t = dt_time dt in
      date_isoformat (dt_date dt) @ ''T'' @ dec2 (hour t) @ '':'' @ dec2 (minute t) @ '':''
      @ dec2 (second t) @ (if microsecond t \<noteq> 0 then ''.'' @ dec6 (microsecond t) else []))"

definition strftime_ymd_hm :: "pydatetime \<Rightarrow> string" where
  "strftime_ymd_hm dt =
     date_isoformat (dt_date dt) @ '' '' @ dec2 (hour (dt_time dt)) @ '':''
     @ dec2 (minute (dt_time dt))"

text \<open>\<^verbatim>\<open>sep.join(xs)\<close>.\<close>

fun join :: "string \<Rightarrow> string list \<Rightarrow> string" where
  "join sep [] = []"
| "join sep [x] = x"
| "join sep (x # y # ys) = x @ sep @ join sep (y # ys)"

section \<open>Persistent state and the outside world\<close>

text \<open>
  The tables of \<^verbatim>\<open>app/models/database.py\<close>, with the columns the core reads or writes.
  A nullable column is an option; the columns that receive values of the classifier's
  dictionary unchanged hold Python values. Queries and commits are taken to succeed: the
  database itself raises nothing.
\<close>

record user =
  user_id :: nat
  phone_number :: string
  google_refresh_token :: "string option"
  todoist_token :: "string option"

record meeting =
  meeting_id :: nat
  m_user_id :: nat
  google_event_id :: "string option"
  todoist_task_id :: "string option"
  title :: pyval
  start_time :: pydatetime
  end_time :: pydatetime
  location :: pyval
  meeting_type :: pyval
  status :: string

record conversation =
  conv_user_phone :: string
  conv_context :: pyval

text \<open>A point of the vector store: identifier, vector and payload.\<close>

type_synonym vector = "real list"

record point =
  pt_id :: int
  pt_vector :: vector
  pl_phone_number :: string
  pl_message :: string
  pl_context :: pyval
  pl_timestamp :: string

text \<open>The dictionaries built by the services, one record each.\<close>

record event_data =
  ev_title :: pyval
  ev_start_time :: pydatetime
  ev_end_time :: pydatetime
  ev_location :: pyval
  ev_timezone :: pyval
  ev_attendees :: pyval

record gcal_event =
  g_summary :: pyval
  g_description :: string
  g_start_dateTime :: string
  g_start_timeZone :: pyval
  g_end_dateTime :: string
  g_end_timeZone :: pyval
  g_location :: "pyval option"
  g_attendees :: "pyval list option"

record task_data =
  td_content :: string
  td_description :: string
  td_due_date :: pydate
  td_priority :: int
  td_labels :: "string list"

record task_payload =
  tp_content :: string
  tp_description :: string
  tp_priority :: int
  tp_due_date :: string
  tp_labels :: "string list"

record http_response =
  status_code :: nat
  resp_text :: string
  resp_json_id :: "exn + string"

record ctx_entry =
  c_message :: string
  c_context :: pyval
  c_timestamp :: string
  c_score :: real

record hist_entry =
  h_title :: pyval
  h_start_time :: string
  h_end_time :: string
  h_location :: pyval
  h_meeting_type :: pyval
  h_status :: string

text \<open>
  The enhanced context is a dictionary with two shapes: the full one, and the two-key one
  returned when a lookup raised. An absent key is \<open>None\<close>.
\<close>

record enhanced_context =
  current_message :: string
  conversation_history :: "ctx_entry list option"
  meeting_history :: "hist_entry list option"
  current_context :: "pyval option"
  user_phone :: string
  timestamp :: "string option"

text \<open>
  What the classifier call of \<^verbatim>\<open>classify_intent\<close> can come to: the completion request
  raises (timeout, network, quota), its content is not JSON (\<^verbatim>\<open>json.loads\<close> raises), or
  the content parses to a value. The text is \<^verbatim>\<open>str(e)\<close>.
\<close>

datatype classifier_outcome = CallFailed string | NotJson string | Json pyval

text \<open>
  Everything the repository does not decide is a field of the environment: the clock
  (read once while a message is handled),
  the external services (what each answers to a request, or the exception the client
  library raises), and library functions whose result is passed on unread.
  \<^item> \<open>history_rows\<close> is the ORM query of \<^verbatim>\<open>get_user_meeting_history\<close> (a join that names
    no condition, a cutoff, an order and a limit): it raises or yields rows.
  \<^item> \<open>google_build\<close> is the construction of the calendar client from the stored refresh
    token, \<open>google_insert\<close> and \<open>google_delete\<close> are the two requests; an insert that
    succeeds yields the identifier of the created event.
  \<^item> \<open>add_minutes\<close> is \<^verbatim>\<open>start_time + timedelta(minutes=duration)\<close> for a numeric duration.
  \<^item> \<open>py_repr\<close> is \<^verbatim>\<open>str()\<close> of a number, list or dictionary inside an f-string.
\<close>

record env =
  today :: pydate
  now_iso :: string
  add_minutes :: "pydatetime \<Rightarrow> pyval \<Rightarrow> exn + pydatetime"
  py_repr :: "pyval \<Rightarrow> string"
  json_dumps :: "pyval \<Rightarrow> string"
  py_hash :: "string \<Rightarrow> int"
  google_build :: "string \<Rightarrow> exn option"
  google_insert :: "string \<Rightarrow> gcal_event \<Rightarrow> exn + string"
  google_delete :: "string \<Rightarrow> string \<Rightarrow> exn option"
  todoist_post :: "string \<Rightarrow> task_payload \<Rightarrow> exn + http_response"
  todoist_delete :: "string \<Rightarrow> string \<Rightarrow> exn + http_response"
  chat_classify :: "string \<Rightarrow> classifier_outcome"
  chat_generate :: "enhanced_context \<Rightarrow> exn + string"
  embed :: "string \<Rightarrow> exn + vector"
  similarity :: "vector \<Rightarrow> vector \<Rightarrow> real"
  qdrant_search_error :: "vector \<Rightarrow> string \<Rightarrow> exn option"
  qdrant_upsert_error :: "point \<Rightarrow> exn option"
  history_rows :: "string \<Rightarrow> exn + meeting list"

text \<open>
  The calls made on the two ports of the orchestrator, in order, each with the result
  the service returned: an error text, or the reference on success.
\<close>

datatype call =
    CalendarCreate string event_data "string + string"
  | CalendarDelete string string "string option"
  | TaskCreate string task_data "string + string"
  | TaskDelete string string "string option"

record world =
  users :: "user list"
  meetings :: "meeting list"
  conversations :: "conversation list"
  points :: "point list"
  calls :: "call list"

section \<open>The calendar and task services\<close>

definition find_user :: "world \<Rightarrow> string \<Rightarrow> user option" where
  "find_user w phone = find (\<lambda>u. phone_number u = phone) (users w)"

text \<open>
  \<^verbatim>\<open>get_user_credentials\<close>: credentials exist when the user exists and has a non-empty
  refresh token. They are built without an access token and without an expiry, so no
  refresh is attempted here.
\<close>

definition get_user_credentials :: "world \<Rightarrow> string \<Rightarrow> string option" where
  "get_user_credentials w phone =
     (case find_user w phone of
        None \<Rightarrow> None
      | Some u \<Rightarrow>
          (case google_refresh_token u of
             None \<Rightarrow> None
           | Some t \<Rightarrow> if t \<noteq> [] then Some t else None))"

text \<open>
  Iterating a value in a comprehension: a list gives its elements, a string its
  characters, a dictionary its keys; anything else raises \<^verbatim>\<open>TypeError\<close>.
\<close>

definition py_iter :: "pyval \<Rightarrow> exn + pyval list" where
  "py_iter v =
     (case v of
        PList xs \<Rightarrow> Inr xs
      | PStr s \<Rightarrow> Inr (map (\<lambda>c. PStr [c]) s)
      | PDict kvs \<Rightarrow> Inr (map (\<lambda>kv. PStr (fst kv)) kvs)
      | _ \<Rightarrow> Inl (Exception ''object is not iterable''))"

definition event_body :: "event_data \<Rightarrow> exn + gcal_event" where
  "event_body ed =
     (case (if truthy (ev_attendees ed)
            then (case py_iter (ev_attendees ed) of
                    Inl e \<Rightarrow> Inl e
                  | Inr emails \<Rightarrow> Inr (Some (map (\<lambda>email. PDict [(''email'', email)]) emails)))
            else Inr None) of
        Inl e \<Rightarrow> Inl e
      | Inr attendees \<Rightarrow>
          Inr \<lparr>g_summary = ev_title ed,
               g_description = [],
               g_start_dateTime = isoformat (ev_start_time ed),
               g_start_timeZone = ev_timezone ed,
               g_end_dateTime = isoformat (ev_end_time ed),
               g_end_timeZone = ev_timezone ed,
               g_location = (if truthy (ev_location ed) then Some (ev_location ed) else None),
               g_attendees = attendees\<rparr>)"

text \<open>The two \<^verbatim>\<open>except\<close> clauses of the calendar service.\<close>

fun calendar_error :: "exn \<Rightarrow> string" where
  "calendar_error (HttpError s) = ''Google Calendar API error: '' @ s"
| "calendar_error (Exception s) = ''Calendar service error: '' @ s"

definition create_event_result :: "env \<Rightarrow> world \<Rightarrow> string \<Rightarrow> event_data \<Rightarrow> string + string" where
  "create_event_result env w phone ed =
     (case get_user_credentials w phone of
        None \<Rightarrow> Inl ''User not authenticated with Google''
      | Some creds \<Rightarrow>
          (case google_build env creds of
             Some e \<Rightarrow> Inl (calendar_error e)
           | None \<Rightarrow>
               (case event_body ed of
                  Inl e \<Rightarrow> Inl (calendar_error e)
                | Inr body \<Rightarrow>
                    (case google_insert env creds body of
                       Inl e \<Rightarrow> Inl (calendar_error e)
                     | Inr event_id \<Rightarrow> Inr event_id))))"

definition create_event :: "env \<Rightarrow> world \<Rightarrow> string \<Rightarrow> event_data \<Rightarrow> world \<times> (string + string)" where
  "create_event env w phone ed =
     (let r = create_event_result env w phone ed
      in (w\<lparr>calls := calls w @ [CalendarCreate phone ed r]\<rparr>, r))"

definition delete_event_result :: "env \<Rightarrow> world \<Rightarrow> string \<Rightarrow> string \<Rightarrow> string option" where
  "delete_event_result env w phone event_id =
     (case get_user_credentials w phone of
        None \<Rightarrow> Some ''User not authenticated with Google''
      | Some creds \<Rightarrow>
          (case google_build env creds of
             Some e \<Rightarrow> Some (calendar_error e)
           | None \<Rightarrow>
               (case google_delete env creds event_id of
                  Some e \<Rightarrow> Some (calendar_error e)
                | None \<Rightarrow> None)))"

definition delete_event :: "env \<Rightarrow> world \<Rightarrow> string \<Rightarrow> string \<Rightarrow> world \<times> string option" where
  "delete_event env w phone event_id =
     (let r = delete_event_result env w phone event_id
      in (w\<lparr>calls := calls w @ [CalendarDelete phone event_id r]\<rparr>, r))"

text \<open>\<^verbatim>\<open>get_user_token\<close>: \<^verbatim>\<open>user.todoist_token if user else None\<close>.\<close>

definition get_user_token :: "world \<Rightarrow> string \<Rightarrow> string option" where
  "get_user_token w phone =
     (case find_user w phone of None \<Rightarrow> None | Some u \<Rightarrow> todoist_token u)"

fun show_nat :: "nat \<Rightarrow> string" where
  "show_nat n = (if n < 10 then [digit_char n] else show_nat (n div 10) @ [digit_char n])"

definition todoist_api_error :: "http_response \<Rightarrow> string" where
  "todoist_api_error r =
     ''Todoist API error: '' @ show_nat (status_code r) @ '' - '' @ resp_text r"

definition create_task_result :: "env \<Rightarrow> world \<Rightarrow> string \<Rightarrow> task_data \<Rightarrow> string + string" where
  "create_task_result env w phone td =
     (case get_user_token w phone of
        None \<Rightarrow> Inl ''User not authenticated with Todoist''
      | Some token \<Rightarrow>
          if token = [] then Inl ''User not authenticated with Todoist''
          else
            (let task_payload =
                   \<lparr>tp_content = td_content td,
                    tp_description = td_description td,
                    tp_priority = td_priority td,
                    tp_due_date = date_isoformat (td_due_date td),
                    tp_labels = td_labels td\<rparr>
             in case todoist_post env token task_payload of
                  Inl e \<Rightarrow> Inl (''Todoist service error: '' @ exn_str e)
                | Inr response \<Rightarrow>
                    if status_code response = 200 then
                      (case resp_json_id response of
                         Inl e \<Rightarrow> Inl (''Todoist service error: '' @ exn_str e)
                       | Inr task_id \<Rightarrow> Inr task_id)
                    else Inl (todoist_api_error response)))"

definition create_task :: "env \<Rightarrow> world \<Rightarrow> string \<Rightarrow> task_data \<Rightarrow> world \<times> (string + string)" where
  "create_task env w phone td =
     (let r = create_task_result env w phone td
      in (w\<lparr>calls := calls w @ [TaskCreate phone td r]\<rparr>, r))"

definition delete_task_result :: "env \<Rightarrow> world \<Rightarrow> string \<Rightarrow> string \<Rightarrow> string option" where
  "delete_task_result env w phone task_id =
     (case get_user_token w phone of
        None \<Rightarrow> Some ''User not authenticated with Todoist''
      | Some token \<Rightarrow>
          if token = [] then Some ''User not authenticated with Todoist''
          else
            (case todoist_delete env token task_id of
               Inl e \<Rightarrow> Some (''Todoist service error: '' @ exn_str e)
             | Inr response \<Rightarrow>
                 if status_code response = 204 then None
                 else Some (todoist_api_error response)))"

definition delete_task :: "env \<Rightarrow> world \<Rightarrow> string \<Rightarrow> string \<Rightarrow> world \<times> string option" where
  "delete_task env w phone task_id =
     (let r = delete_task_result env w phone task_id
      in (w\<lparr>calls := calls w @ [TaskDelete phone task_id r]\<rparr>, r))"

section \<open>The scheduler\<close>

subsection \<open>Sessions\<close>

text \<open>
  A database session is the list of meeting objects it holds with changes not yet
  written (added by \<^verbatim>\<open>db.add\<close>, or loaded through it and then assigned to).
  \<^verbatim>\<open>SessionLocal()\<close> opens a session that holds nothing. \<^verbatim>\<open>commit\<close> writes the objects of
  the session it is called on, each to the row of its identifier, or as a new row;
  \<^verbatim>\<open>close\<close> drops what was not committed. Only the field \<open>meetings\<close> of the world is
  what later requests can read.
\<close>

type_synonym session = "meeting list"

definition SessionLocal :: session where
  "SessionLocal = []"

definition flush_meeting :: "meeting \<Rightarrow> meeting list \<Rightarrow> meeting list" where
  "flush_meeting m rows =
     (if meeting_id m \<in> set (map meeting_id rows)
      then map (\<lambda>r. if meeting_id r = meeting_id m then m else r) rows
      else rows @ [m])"

definition session_commit :: "session \<Rightarrow> world \<Rightarrow> world" where
  "session_commit db w = w\<lparr>meetings := fold flush_meeting db (meetings w)\<rparr>"

text \<open>The next value of an autoincrement primary key.\<close>

definition next_id :: "nat list \<Rightarrow> nat" where
  "next_id ids = Suc (fold max ids 0)"

definition get_or_create_user :: "world \<Rightarrow> string \<Rightarrow> world \<times> user" where
  "get_or_create_user w phone =
     (case find_user w phone of
        Some u \<Rightarrow> (w, u)
      | None \<Rightarrow>
          (let u = \<lparr>user_id = next_id (map user_id (users w)), phone_number = phone,
                    google_refresh_token = None, todoist_token = None\<rparr>
           in (w\<lparr>users := users w @ [u]\<rparr>, u)))"

subsection \<open>\<^verbatim>\<open>_parse_datetime\<close>\<close>

text \<open>
  The first \<^verbatim>\<open>try\<close> block: it returns only when both strings are non-empty and both
  parse; an exception in it is logged and control falls through.
\<close>

definition parse_both :: "pyval \<Rightarrow> pyval \<Rightarrow> pydatetime option" where
  "parse_both date_str time_str =
     (if truthy date_str \<and> truthy time_str then
        (case strptime_date date_str of
           Inl e \<Rightarrow> None
         | Inr date_part \<Rightarrow>
             (case strptime_time time_str of
                Inl e \<Rightarrow> None
              | Inr time_part \<Rightarrow> Some (combine date_part time_part)))
      else None)"

text \<open>
  The fallback: tomorrow, at the given time when it parses, else at 10:00
  (\<^verbatim>\<open># Default to tomorrow at specified time or 10 AM\<close>).
\<close>

definition parse_datetime :: "env \<Rightarrow> pyval \<Rightarrow> pyval \<Rightarrow> exn + pydatetime" where
  "parse_datetime env date_str time_str =
     (case parse_both date_str time_str of
        Some dt \<Rightarrow> Inr dt
      | None \<Rightarrow>
          (case next_day (today env) of
             Inl e \<Rightarrow> Inl e
           | Inr tomorrow \<Rightarrow>
               (case (case (if truthy time_str then strptime_time time_str
                            else strptime_time (PStr ''10:00'')) of
                        Inl e \<Rightarrow> strptime_time (PStr ''10:00'')
                      | Inr t \<Rightarrow> Inr t) of
                  Inl e \<Rightarrow> Inl e
                | Inr time_part \<Rightarrow> Inr (combine tomorrow time_part))))"

text \<open>
  \<^verbatim>\<open>start_time + timedelta(minutes=duration)\<close>: \<^verbatim>\<open>timedelta\<close> refuses what is not a number
  (\<^verbatim>\<open>None\<close> for a JSON \<^verbatim>\<open>null\<close>, a string, a list, a dictionary).
\<close>

definition end_time_of :: "env \<Rightarrow> pydatetime \<Rightarrow> pyval \<Rightarrow> exn + pydatetime" where
  "end_time_of env start duration =
     (case duration of
        PNone \<Rightarrow> Inl (Exception ''unsupported type for timedelta minutes component: NoneType'')
      | PStr _ \<Rightarrow> Inl (Exception ''unsupported type for timedelta minutes component: str'')
      | PList _ \<Rightarrow> Inl (Exception ''unsupported type for timedelta minutes component: list'')
      | PDict _ \<Rightarrow> Inl (Exception ''unsupported type for timedelta minutes component: dict'')
      | _ \<Rightarrow> add_minutes env start duration)"

subsection \<open>\<^verbatim>\<open>_create_todoist_task\<close>\<close>

text \<open>A value inside an f-string.\<close>

definition py_str :: "env \<Rightarrow> pyval \<Rightarrow> string" where
  "py_str env v =
     (case v of
        PStr s \<Rightarrow> s
      | PNone \<Rightarrow> ''None''
      | PBool b \<Rightarrow> (if b then ''True'' else ''False'')
      | _ \<Rightarrow> py_repr env v)"

definition calendar_emoji :: string where
  "calendar_emoji = [CHR 0xF0, CHR 0x9F, CHR 0x93, CHR 0x85]"

definition task_data_of :: "env \<Rightarrow> meeting \<Rightarrow> task_data" where
  "task_data_of env m =
     \<lparr>td_content =
        calendar_emoji @ '' Meeting: '' @ py_str env (title m)
        @ (if truthy (location m) then '' at '' @ py_str env (location m) else []),
      td_description =
        ''Meeting scheduled for '' @ strftime_ymd_hm (start_time m)
        @ (if truthy (meeting_type m) then [CHR 0x0A] @ ''Type: '' @ py_str env (meeting_type m)
           else []),
      td_due_date = dt_date (start_time m),
      td_priority = 2,
      td_labels = [''meeting'', ''scheduled'']\<rparr>"

text \<open>
  The function receives the meeting object of its caller, which belongs to the caller's
  session. On success it opens a session of its own, assigns the task identifier to the
  object, and commits its own session, which holds no object. It returns the world and
  the object as the caller then sees it.
\<close>

definition create_todoist_task :: "env \<Rightarrow> world \<Rightarrow> string \<Rightarrow> meeting \<Rightarrow> world \<times> meeting" where
  "create_todoist_task env w phone m =
     (case create_task env w phone (task_data_of env m) of
        (w1, Inr task_id) \<Rightarrow>
          (let db = SessionLocal;
               m' = m\<lparr>todoist_task_id := Some task_id\<rparr>
           in (session_commit db w1, m'))
      | (w1, Inl err) \<Rightarrow> (w1, m))"

subsection \<open>\<^verbatim>\<open>create_meeting\<close> and \<^verbatim>\<open>cancel_meeting\<close>\<close>

text \<open>
  The result dictionary: \<open>Inl\<close> the error text of \<^verbatim>\<open>{'success': False, 'error': ...}\<close>,
  \<open>Inr\<close> the meeting and event identifiers of a success. An exception before the calendar
  call (the clock, the duration) is caught by the function's \<^verbatim>\<open>except\<close>; a user added on
  the way stays, since it was committed. The meeting is added to the function's session
  and committed once, before the task is created; the session is closed on return.
\<close>

definition create_meeting ::
  "env \<Rightarrow> world \<Rightarrow> string \<Rightarrow> (string \<times> pyval) list \<Rightarrow> world \<times> (string + nat \<times> string)" where
  "create_meeting env w phone meeting_data =
     (case get_or_create_user w phone of
        (w1, u) \<Rightarrow>
          (case parse_datetime env (dict_get meeting_data ''date'') (dict_get meeting_data ''time'') of
             Inl e \<Rightarrow> (w1, Inl (exn_str e))
           | Inr start \<Rightarrow>
               (case end_time_of env start
                       (dict_get_default meeting_data ''duration_minutes'' (PInt 30)) of
                  Inl e \<Rightarrow> (w1, Inl (exn_str e))
                | Inr end \<Rightarrow>
                    (let ed = \<lparr>ev_title = dict_get_default meeting_data ''title'' (PStr ''Meeting''),
                               ev_start_time = start,
                               ev_end_time = end,
                               ev_location = dict_get meeting_data ''location'',
                               ev_timezone = dict_get_default meeting_data ''timezone'' (PStr ''UTC''),
                               ev_attendees = dict_get_default meeting_data ''participants'' (PList [])\<rparr>
                     in case create_event env w1 phone ed of
                          (w2, Inl err) \<Rightarrow> (w2, Inl err)
                        | (w2, Inr event_id) \<Rightarrow>
                            (let m = \<lparr>meeting_id = next_id (map meeting_id (meetings w2)),
                                      m_user_id = user_id u,
                                      google_event_id = Some event_id,
                                      todoist_task_id = None,
                                      title = dict_get_default meeting_data ''title'' (PStr ''Meeting''),
                                      start_time = start,
                                      end_time = end,
                                      location = dict_get meeting_data ''location'',
                                      meeting_type =
                                        dict_get_default meeting_data ''meeting_type'' (PStr ''in-person''),
                                      status = ''scheduled''\<rparr>;
                                 db = SessionLocal @ [m];
                                 w3 = session_commit db w2
                             in case create_todoist_task env w3 phone m of
                                  (w4, m') \<Rightarrow> (w4, Inr (meeting_id m', event_id)))))))"

text \<open>
  The meeting is looked up by identifier alone. The deletions are attempted with the
  caller's phone number; what they return is only logged.
\<close>

definition cancel_meeting :: "env \<Rightarrow> world \<Rightarrow> string \<Rightarrow> nat \<Rightarrow> world \<times> (string + string)" where
  "cancel_meeting env w phone mid =
     (case find (\<lambda>m. meeting_id m = mid) (meetings w) of
        None \<Rightarrow> (w, Inl ''Meeting not found'')
      | Some m \<Rightarrow>
          (let w1 = (case google_event_id m of
                       None \<Rightarrow> w
                     | Some event_id \<Rightarrow>
                         if event_id \<noteq> [] then fst (delete_event env w phone event_id) else w);
               w2 = (case todoist_task_id m of
                       None \<Rightarrow> w1
                     | Some task_id \<Rightarrow>
                         if task_id \<noteq> [] then fst (delete_task env w1 phone task_id) else w1);
               db = [m\<lparr>status := ''cancelled''\<rparr>]
           in (session_commit db w2, Inr ''Meeting cancelled successfully'')))"

section \<open>Intent extraction and context retrieval\<close>



definition get_embedding :: "env \<Rightarrow> string \<Rightarrow> vector" where
  "get_embedding env text = (case embed env text of Inl e \<Rightarrow> [] | Inr v \<Rightarrow> v)"

text \<open>
  The vector store. A search with the condition
  \<^verbatim>\<open>{"must": [{"key": "phone_number", "match": {"value": phone_number}}]}\<close> considers the
  points whose payload has that phone number, ranks them by similarity to the query,
  best first, and returns at most \<open>limit\<close> of them. An upsert replaces the point of the
  same identifier or adds one.
\<close>

definition qdrant_search :: "env \<Rightarrow> point list \<Rightarrow> vector \<Rightarrow> string \<Rightarrow> nat \<Rightarrow> point list" where
  "qdrant_search env pts query phone limit =
     take limit
       (sort_key (\<lambda>p. - similarity env query (pt_vector p))
          (filter (\<lambda>p. pl_phone_number p = phone) pts))"



definition get_relevant_context :: "env \<Rightarrow> world \<Rightarrow> string \<Rightarrow> string \<Rightarrow> nat \<Rightarrow> ctx_entry list" where
  "get_relevant_context env w phone message limit =
     (let embedding = get_embedding env message
      in if embedding = [] then []
         else
           (case qdrant_search_error env embedding phone of
              Some e \<Rightarrow> []
            | None \<Rightarrow>
                map (\<lambda>p. \<lparr>c_message = pl_message p,
                           c_context = pl_context p,
                           c_timestamp = pl_timestamp p,
                           c_score = similarity env embedding (pt_vector p)\<rparr>)
                  (qdrant_search env (points w) embedding phone limit)))"







section \<open>The message handlers\<close>

definition check_mark :: string where
  "check_mark = [CHR 0xC3, CHR 0xA2, CHR 0xC5, CHR 0x93, CHR 0xE2, CHR 0x80, CHR 0xA6]"

definition cross_mark :: string where
  "cross_mark = [CHR 0xC3, CHR 0xA2, CHR 0xC5, CHR 0x92]"



definition success_reply :: "env \<Rightarrow> (string \<times> pyval) list \<Rightarrow> string" where
  "success_reply env ai_result =
     check_mark @ '' Perfect! I've scheduled your ''
     @ py_str env (dict_get_default ai_result ''meeting_type'' (PStr ''meeting''))
     @ '' for '' @ py_str env (dict_get ai_result ''date'')
     @ '' at '' @ py_str env (dict_get ai_result ''time'')
     @ (if truthy (dict_get ai_result ''location'')
        then '' at '' @ py_str env (dict_get ai_result ''location'') else [])
     @ ''. You'll see it in Google Calendar and get a Todoist reminder on the day.''"

definition failure_reply :: "string \<Rightarrow> string" where
  "failure_reply err = cross_mark @ '' Sorry, I couldn't create the meeting: '' @ err"

definition history_present :: "enhanced_context \<Rightarrow> bool" where
  "history_present ec = (case meeting_history ec of None \<Rightarrow> False | Some h \<Rightarrow> h \<noteq> [])"

definition handle_schedule_request ::
  "env \<Rightarrow> world \<Rightarrow> string \<Rightarrow> (string \<times> pyval) list \<Rightarrow> enhanced_context \<Rightarrow> world \<times> string" where
  "handle_schedule_request env w phone ai_result ec =
     (let required_fields = [''date'', ''time''];
          missing_fields = filter (\<lambda>field. \<not> truthy (dict_get ai_result field)) required_fields
      in if missing_fields \<noteq> [] then
           (if history_present ec then
              (w, ''I'd be happy to schedule that meeting! Based on your usual preferences, could you please provide the ''
                  @ join '', '' missing_fields @ ''?'')
            else
              (w, ''I'd be happy to schedule that meeting! Could you please provide the ''
                  @ join '', '' missing_fields @ ''?''))
         else
           (case create_meeting env w phone ai_result of
              (w', Inr ids) \<Rightarrow> (w', success_reply env ai_result)
            | (w', Inl err) \<Rightarrow> (w', failure_reply err)))"












section \<open>Notions used in the statements\<close>


text \<open>The two openings of the prompt for missing fields.\<close>

definition prompt_plain :: string where
  "prompt_plain = ''I'd be happy to schedule that meeting! Could you please provide the ''"

definition prompt_personal :: string where
  "prompt_personal = ''I'd be happy to schedule that meeting! Based on your usual preferences, could you please provide the ''"


text \<open>
  What a cancellation of the meeting \<open>m\<close> writes and which calls it makes, for the
  statements about \<^verbatim>\<open>cancel_meeting\<close>.
\<close>

definition cancelled_rows :: "meeting \<Rightarrow> meeting list \<Rightarrow> meeting list" where
  "cancelled_rows m rows =
     map (\<lambda>r. if meeting_id r = meeting_id m then m\<lparr>status := ''cancelled''\<rparr> else r) rows"

definition cancel_calls :: "env \<Rightarrow> world \<Rightarrow> string \<Rightarrow> meeting \<Rightarrow> call list" where
  "cancel_calls env w phone m =
     (case google_event_id m of
        None \<Rightarrow> []
      | Some e \<Rightarrow> if e \<noteq> [] then [CalendarDelete phone e (delete_event_result env w phone e)] else [])
     @ (case todoist_task_id m of
          None \<Rightarrow> []
        | Some t \<Rightarrow> if t \<noteq> [] then [TaskDelete phone t (delete_task_result env w phone t)] else [])"

section \<open>An example environment\<close>

text \<open>
  A clock reading 2025-01-05, services that answer, and a classifier that times out.
  The examples below change one field at a time.
\<close>

definition demo_add_minutes :: "pydatetime \<Rightarrow> pyval \<Rightarrow> exn + pydatetime" where
  "demo_add_minutes start duration =
     (case duration of
        PInt n \<Rightarrow>
          (let total = int (hour (dt_time start) * 60 + minute (dt_time start)) + n
           in if 0 \<le> total \<and> total < 1440
              then Inr (start\<lparr>dt_time := (dt_time start)\<lparr>hour := nat total div 60, minute := nat total mod 60\<rparr>\<rparr>)
              else Inl (Exception ''not within the day''))
      | _ \<Rightarrow> Inl (Exception ''not an integer''))"

definition demo_env :: env where
  "demo_env =
     \<lparr>today = \<lparr>year = 2025, month = 1, day = 5\<rparr>,
      now_iso = ''2025-01-05T09:00:00'',
      add_minutes = demo_add_minutes,
      py_repr = (\<lambda>v. ''...''),
      json_dumps = (\<lambda>v. ''{}''),
      py_hash = (\<lambda>s. int (length s)),
      google_build = (\<lambda>creds. None),
      google_insert = (\<lambda>creds body. Inr ''evt-1''),
      google_delete = (\<lambda>creds event_id. None),
      todoist_post = (\<lambda>token payload.
         Inr \<lparr>status_code = 200, resp_text = ''task created'', resp_json_id = Inr ''task-1''\<rparr>),
      todoist_delete = (\<lambda>token task_id.
         Inr \<lparr>status_code = 204, resp_text = [], resp_json_id = Inl (Exception ''empty body'')\<rparr>),
      chat_classify = (\<lambda>message. CallFailed ''Request timed out.''),
      chat_generate = (\<lambda>ec. Inr ''How can I help you today?''),
      embed = (\<lambda>text. Inr [1]),
      similarity = (\<lambda>a b. 1),
      qdrant_search_error = (\<lambda>query phone. None),
      qdrant_upsert_error = (\<lambda>p. None),
      history_rows = (\<lambda>phone. Inl (Exception ''no join condition''))\<rparr>"

text \<open>One user who has connected both services, and no meeting yet.\<close>

definition demo_world :: world where
  "demo_world =
     \<lparr>users = [\<lparr>user_id = 1, phone_number = ''+212600000001'',
                 google_refresh_token = Some ''refresh-1'', todoist_token = Some ''token-1''\<rparr>],
      meetings = [], conversations = [], points = [], calls = []\<rparr>"

definition demo_context :: enhanced_context where
  "demo_context =
     \<lparr>current_message = ''Schedule a call at 15:00'', conversation_history = None,
      meeting_history = None, current_context = None, user_phone = ''+212600000001'',
      timestamp = None\<rparr>"

text \<open>A complete schedule request, and what it turns into.\<close>

definition demo_request :: "(string \<times> pyval) list" where
  "demo_request =
     [(''intent'', PStr ''schedule''), (''date'', PStr ''2025-01-10''), (''time'', PStr ''15:00''),
      (''timezone'', PStr ''Africa/Casablanca''), (''duration_minutes'', PInt 30),
      (''meeting_type'', PStr ''virtual''), (''location'', PNone), (''participants'', PList []),
      (''title'', PStr ''Demo''), (''confidence'', PFloat 0.9)]"

definition demo_start :: pydatetime where
  "demo_start =
     \<lparr>dt_date = \<lparr>year = 2025, month = 1, day = 10\<rparr>,
      dt_time = \<lparr>hour = 15, minute = 0, second = 0, microsecond = 0\<rparr>\<rparr>"

definition demo_end :: pydatetime where
  "demo_end =
     \<lparr>dt_date = \<lparr>year = 2025, month = 1, day = 10\<rparr>,
      dt_time = \<lparr>hour = 15, minute = 30, second = 0, microsecond = 0\<rparr>\<rparr>"

definition demo_event :: event_data where
  "demo_event =
     \<lparr>ev_title = PStr ''Demo'', ev_start_time = demo_start, ev_end_time = demo_end,
      ev_location = PNone, ev_timezone = PStr ''Africa/Casablanca'', ev_attendees = PList []\<rparr>"

definition demo_task :: task_data where
  "demo_task =
     \<lparr>td_content = calendar_emoji @ '' Meeting: Demo'',
      td_description = ''Meeting scheduled for 2025-01-10 15:00'' @ [CHR 0x0A] @ ''Type: virtual'',
      td_due_date = \<lparr>year = 2025, month = 1, day = 10\<rparr>,
      td_priority = 2,
      td_labels = [''meeting'', ''scheduled'']\<rparr>"

definition demo_meeting :: meeting where
  "demo_meeting =
     \<lparr>meeting_id = 1, m_user_id = 1, google_event_id = Some ''evt-1'', todoist_task_id = None,
      title = PStr ''Demo'', start_time = demo_start, end_time = demo_end, location = PNone,
      meeting_type = PStr ''virtual'', status = ''scheduled''\<rparr>"



text \<open>Two users; the only meeting belongs to the second.\<close>

definition review_meeting :: meeting where
  "review_meeting =
     \<lparr>meeting_id = 1, m_user_id = 2, google_event_id = Some ''evt-b'',
      todoist_task_id = Some ''task-b'', title = PStr ''Review'', start_time = demo_start,
      end_time = demo_end, location = PNone, meeting_type = PStr ''virtual'',
      status = ''scheduled''\<rparr>"

definition two_user_world :: world where
  "two_user_world =
     \<lparr>users = [\<lparr>user_id = 1, phone_number = ''+212600000001'',
                 google_refresh_token = Some ''refresh-1'', todoist_token = Some ''token-1''\<rparr>,
               \<lparr>user_id = 2, phone_number = ''+212600000002'',
                 google_refresh_token = Some ''refresh-2'', todoist_token = Some ''token-2''\<rparr>],
      meetings = [review_meeting], conversations = [], points = [], calls = []\<rparr>"

definition demo_env_deletes_fail :: env where
  "demo_env_deletes_fail =
     demo_env\<lparr>google_delete := (\<lambda>creds event_id. Some (HttpError ''404 Not Found'')),
              todoist_delete := (\<lambda>token task_id. Inl (Exception ''timed out''))\<rparr>"

definition after_failed_deletes :: world where
  "after_failed_deletes =
     two_user_world\<lparr>
       calls := [CalendarDelete ''+212600000002'' ''evt-b''
                   (Some ''Google Calendar API error: 404 Not Found''),
                 TaskDelete ''+212600000002'' ''task-b'' (Some ''Todoist service error: timed out'')],
       meetings := [review_meeting\<lparr>status := ''cancelled''\<rparr>]\<rparr>"

definition after_owner_cancel :: world where
  "after_owner_cancel =
     two_user_world\<lparr>
       calls := [CalendarDelete ''+212600000002'' ''evt-b'' None,
                 TaskDelete ''+212600000002'' ''task-b'' None],
       meetings := [review_meeting\<lparr>status := ''cancelled''\<rparr>]\<rparr>"

text \<open>A vector store holding one turn of each of two users.\<close>

definition shared_store :: world where
  "shared_store =
     \<lparr>users = [], meetings = [], conversations = [],
      points =
        [\<lparr>pt_id = 11, pt_vector = [1], pl_phone_number = ''+212600000001'',
          pl_message = ''Lunch with Sara on Friday'', pl_context = PDict [(''intent'', PStr ''schedule'')],
          pl_timestamp = ''2025-01-03T12:00:00''\<rparr>,
         \<lparr>pt_id = 12, pt_vector = [1], pl_phone_number = ''+212600000002'',
          pl_message = ''Cancel the board review'', pl_context = PDict [(''intent'', PStr ''cancel'')],
          pl_timestamp = ''2025-01-04T08:30:00''\<rparr>],
      calls = []\<rparr>"



section \<open>Start-time resolution\<close>











section \<open>Missing fields\<close>

text \<open>
  C4. A schedule intent whose \<open>date\<close> or \<open>time\<close> is absent, null or empty is answered with
  the prompt that names exactly the missing fields, \<open>date\<close> before \<open>time\<close>; the world comes
  back as it was: no user or meeting is written and no port is called.
\<close>

theorem missing_fields_prompt:
  assumes "\<not> truthy (dict_get ai_result ''date'') \<or> \<not> truthy (dict_get ai_result ''time'')"
  shows "handle_schedule_request env w phone ai_result ec =
           (w, (if history_present ec then prompt_personal else prompt_plain)
               @ (if truthy (dict_get ai_result ''time'') then ''date''
                  else if truthy (dict_get ai_result ''date'') then ''time''
                  else ''date, time'')
               @ ''?'')"
  using assms
  by (auto simp: handle_schedule_request_def prompt_plain_def prompt_personal_def)

theorem missing_fields_prompt_witness:
  "\<not> truthy (dict_get [(''intent'', PStr ''schedule''), (''date'', PNone), (''time'', PStr ''15:00'')] ''date'')
   \<and> handle_schedule_request demo_env demo_world ''+212600000001''
        [(''intent'', PStr ''schedule''), (''date'', PNone), (''time'', PStr ''15:00'')] demo_context
      = (demo_world, ''I'd be happy to schedule that meeting! Could you please provide the date?'')"
  using missing_fields_prompt[of "[(''intent'', PStr ''schedule''), (''date'', PNone), (''time'', PStr ''15:00'')]"
      demo_env demo_world "''+212600000001''" demo_context]
  by (simp add: dict_get_def history_present_def demo_context_def prompt_plain_def)

section \<open>Creating a meeting\<close>















text \<open>
  C8, evaluated. The user has connected both services, the calendar returns \<^verbatim>\<open>evt-1\<close> and
  the task service returns \<^verbatim>\<open>task-1\<close>. The task identifier is assigned to the meeting
  object, but the session committed afterwards is the new, empty one, and the session
  that owns the object is closed without another commit: the stored row keeps a null
  task reference.
\<close>

theorem task_reference_lost_example:
  "handle_schedule_request demo_env demo_world ''+212600000001'' demo_request demo_context
   = (demo_world\<lparr>meetings := [demo_meeting],
        calls := [CalendarCreate ''+212600000001'' demo_event (Inr ''evt-1''),
                  TaskCreate ''+212600000001'' demo_task (Inr ''task-1'')]\<rparr>,
      success_reply demo_env demo_request)
   \<and> todoist_task_id demo_meeting = None"
  by code_simp

section \<open>Cancelling a meeting\<close>

lemma delete_event_frame:
  "meetings (fst (delete_event env w phone e)) = meetings w
   \<and> users (fst (delete_event env w phone e)) = users w
   \<and> calls (fst (delete_event env w phone e))
       = calls w @ [CalendarDelete phone e (delete_event_result env w phone e)]"
  by (simp add: delete_event_def Let_def)

lemma delete_task_frame:
  "meetings (fst (delete_task env w phone t)) = meetings w
   \<and> users (fst (delete_task env w phone t)) = users w
   \<and> calls (fst (delete_task env w phone t))
       = calls w @ [TaskDelete phone t (delete_task_result env w phone t)]"
  by (simp add: delete_task_def Let_def)

lemma find_Some_mem: "find P xs = Some x \<Longrightarrow> x \<in> set xs \<and> P x"
  by (induction xs) (auto split: if_splits)

lemma find_None_all: "find P xs = None \<Longrightarrow> \<forall>x\<in>set xs. \<not> P x"
  by (induction xs) (auto split: if_splits)

lemma session_commit_existing:
  "meeting_id m \<in> set (map meeting_id (meetings w)) \<Longrightarrow>
   session_commit [m] w
     = w\<lparr>meetings := map (\<lambda>r. if meeting_id r = meeting_id m then m else r) (meetings w)\<rparr>"
  by (simp add: session_commit_def flush_meeting_def)

lemma get_user_token_calls: "get_user_token (w\<lparr>calls := cs\<rparr>) phone = get_user_token w phone"
  by (simp add: get_user_token_def find_user_def)

lemma delete_task_result_calls:
  "delete_task_result env (w\<lparr>calls := cs\<rparr>) phone t = delete_task_result env w phone t"
  by (simp add: delete_task_result_def get_user_token_calls)

lemma cancel_meeting_found:
  assumes "find (\<lambda>m. meeting_id m = mid) (meetings w) = Some m"
  shows "cancel_meeting env w phone mid =
           (w\<lparr>calls := calls w @ cancel_calls env w phone m,
              meetings := cancelled_rows m (meetings w)\<rparr>,
            Inr ''Meeting cancelled successfully'')"
proof -
  from find_Some_mem[OF assms] have mem: "m \<in> set (meetings w)" and id: "meeting_id m = mid"
    by simp_all
  then have ex: "meeting_id (m\<lparr>status := ''cancelled''\<rparr>) \<in> set (map meeting_id (meetings w))"
    by auto
  show ?thesis
    using assms ex id
    by (cases "google_event_id m"; cases "todoist_task_id m")
       (simp_all add: cancel_meeting_def Let_def session_commit_def flush_meeting_def
          delete_event_def delete_task_def cancel_calls_def cancelled_rows_def
          delete_task_result_calls)
qed

lemma cancel_meeting_missing:
  assumes "find (\<lambda>m. meeting_id m = mid) (meetings w) = None"
  shows "cancel_meeting env w phone mid = (w, Inl ''Meeting not found'')"
  using assms by (simp add: cancel_meeting_def)

lemma find_cancelled_rows:
  "find (\<lambda>r. meeting_id r = meeting_id m) rows = Some m0 \<Longrightarrow>
   find (\<lambda>r. meeting_id r = meeting_id m) (cancelled_rows m rows) = Some (m\<lparr>status := ''cancelled''\<rparr>)"
  by (induction rows) (auto simp: cancelled_rows_def split: if_splits)

lemma cancelled_rows_again:
  "cancelled_rows (m\<lparr>status := ''cancelled''\<rparr>) (cancelled_rows m rows) = cancelled_rows m rows"
  by (induction rows) (auto simp: cancelled_rows_def)

text \<open>
  C5. For a meeting that exists, \<^verbatim>\<open>cancel_meeting\<close> returns success and leaves the row with
  status \<open>cancelled\<close>, whatever the calendar and task deletions answer (the environment is
  arbitrary); cancelling again, in any environment and for any caller, succeeds and
  leaves the meeting table as it was after the first cancellation.
\<close>

theorem cancel_idempotent:
  assumes "find (\<lambda>r. meeting_id r = mid) (meetings w) = Some m"
      and "cancel_meeting env w phone mid = (w', res)"
  shows "res = Inr ''Meeting cancelled successfully''
       \<and> (\<exists>r\<in>set (meetings w'). meeting_id r = mid)
       \<and> (\<forall>r\<in>set (meetings w'). meeting_id r = mid \<longrightarrow> status r = ''cancelled'')
       \<and> (\<forall>env2 phone2. \<exists>w''.
             cancel_meeting env2 w' phone2 mid = (w'', Inr ''Meeting cancelled successfully'')
             \<and> meetings w'' = meetings w')"
proof -
  from find_Some_mem[OF assms(1)] have mem: "m \<in> set (meetings w)" and id: "meeting_id m = mid"
    by simp_all
  from cancel_meeting_found[OF assms(1), of env phone] assms(2)
  have w': "w' = w\<lparr>calls := calls w @ cancel_calls env w phone m,
                    meetings := cancelled_rows m (meetings w)\<rparr>"
    and res: "res = Inr ''Meeting cancelled successfully''"
    by simp_all
  have rows: "meetings w' = cancelled_rows m (meetings w)"
    using w' by simp
  have ex: "\<exists>r\<in>set (meetings w'). meeting_id r = mid"
  proof -
    have "m\<lparr>status := ''cancelled''\<rparr> \<in> set (cancelled_rows m (meetings w))"
      using mem by (force simp: cancelled_rows_def)
    with id rows show ?thesis by (intro bexI[of _ "m\<lparr>status := ''cancelled''\<rparr>"]) simp_all
  qed
  have all: "\<forall>r\<in>set (meetings w'). meeting_id r = mid \<longrightarrow> status r = ''cancelled''"
    using id rows by (auto simp: cancelled_rows_def)
  have found': "find (\<lambda>r. meeting_id r = mid) (meetings w') = Some (m\<lparr>status := ''cancelled''\<rparr>)"
    using find_cancelled_rows[of m "meetings w" m] assms(1) id rows by simp
  have again: "\<exists>w''. cancel_meeting env2 w' phone2 mid = (w'', Inr ''Meeting cancelled successfully'')
                 \<and> meetings w'' = meetings w'" for env2 phone2
    using cancel_meeting_found[OF found', of env2 phone2] rows cancelled_rows_again[of m "meetings w"]
    by simp
  from res ex all again show ?thesis by blast
qed

lemma review_found:
  "find (\<lambda>r. meeting_id r = 1) (meetings two_user_world) = Some review_meeting"
  by (simp add: two_user_world_def review_meeting_def)

lemma owner_cancel_run:
  "cancel_meeting demo_env_deletes_fail two_user_world ''+212600000002'' 1
   = (after_failed_deletes, Inr ''Meeting cancelled successfully'')"
  by code_simp

theorem cancel_idempotent_witness:
  "find (\<lambda>r. meeting_id r = 1) (meetings two_user_world) = Some review_meeting
   \<and> cancel_meeting demo_env_deletes_fail two_user_world ''+212600000002'' 1
       = (after_failed_deletes, Inr ''Meeting cancelled successfully'')
   \<and> meetings after_failed_deletes = [review_meeting\<lparr>status := ''cancelled''\<rparr>]
   \<and> (\<exists>w''. cancel_meeting demo_env_deletes_fail after_failed_deletes ''+212600000002'' 1
               = (w'', Inr ''Meeting cancelled successfully'')
             \<and> meetings w'' = meetings after_failed_deletes)"
  using cancel_idempotent[OF review_found owner_cancel_run] review_found owner_cancel_run
  by (simp add: after_failed_deletes_def)

text \<open>
  C10 (as amended). \<^verbatim>\<open>cancel_meeting\<close> selects the meeting by its identifier alone: the
  phone number of the caller takes no part in the lookup. Either no meeting has the
  identifier and nothing changes, or the row of that identifier is set to \<open>cancelled\<close>,
  every other row and the users stay as they were, and each deletion issued is for a
  reference stored on that meeting, under the caller's phone number.
\<close>

theorem cancel_selects_by_identifier:
  assumes "cancel_meeting env w phone mid = (w', res)"
  shows "(find (\<lambda>r. meeting_id r = mid) (meetings w) = None \<and> w' = w
            \<and> res = Inl ''Meeting not found'')
       \<or> (\<exists>m. find (\<lambda>r. meeting_id r = mid) (meetings w) = Some m
             \<and> res = Inr ''Meeting cancelled successfully''
             \<and> users w' = users w
             \<and> meetings w' =
                 map (\<lambda>r. if meeting_id r = mid then m\<lparr>status := ''cancelled''\<rparr> else r) (meetings w)
             \<and> (\<forall>c\<in>set (drop (length (calls w)) (calls w')).
                   (\<exists>e r. c = CalendarDelete phone e r \<and> google_event_id m = Some e)
                 \<or> (\<exists>t r. c = TaskDelete phone t r \<and> todoist_task_id m = Some t)))"
proof (cases "find (\<lambda>r. meeting_id r = mid) (meetings w)")
  case None
  with cancel_meeting_missing[OF None, of env phone] assms show ?thesis by simp
next
  case (Some m)
  from find_Some_mem[OF Some] have id: "meeting_id m = mid" by simp
  from cancel_meeting_found[OF Some, of env phone] assms
  have w': "w' = w\<lparr>calls := calls w @ cancel_calls env w phone m,
                    meetings := cancelled_rows m (meetings w)\<rparr>"
    and res: "res = Inr ''Meeting cancelled successfully''"
    by simp_all
  have new: "drop (length (calls w)) (calls w') = cancel_calls env w phone m"
    using w' by simp
  have each: "\<forall>c\<in>set (cancel_calls env w phone m).
                (\<exists>e r. c = CalendarDelete phone e r \<and> google_event_id m = Some e)
              \<or> (\<exists>t r. c = TaskDelete phone t r \<and> todoist_task_id m = Some t)"
    by (auto simp: cancel_calls_def split: option.splits if_splits)
  from Some res w' id new each show ?thesis
    by (simp add: cancelled_rows_def)
qed

lemma owner_cancel_ok_run:
  "cancel_meeting demo_env two_user_world ''+212600000002'' 1
   = (after_owner_cancel, Inr ''Meeting cancelled successfully'')"
  by code_simp

theorem cancel_selects_by_identifier_witness:
  "cancel_meeting demo_env two_user_world ''+212600000002'' 1
     = (after_owner_cancel, Inr ''Meeting cancelled successfully'')
   \<and> find (\<lambda>r. meeting_id r = 1) (meetings two_user_world) = Some review_meeting
   \<and> users after_owner_cancel = users two_user_world
   \<and> meetings after_owner_cancel = [review_meeting\<lparr>status := ''cancelled''\<rparr>]"
  using cancel_selects_by_identifier[OF owner_cancel_ok_run] owner_cancel_ok_run review_found
  by (simp add: after_owner_cancel_def)

text \<open>
  C10 as stated fails: the meeting belongs to user 2, the caller's phone number is that
  of user 1, and the call marks the meeting cancelled and issues both deletions for its
  references.
\<close>

theorem cancel_cross_user_counterexample:
  "map user_id (filter (\<lambda>u. phone_number u = ''+212600000001'') (users two_user_world)) = [1]
   \<and> map m_user_id (meetings two_user_world) = [2]
   \<and> cancel_meeting demo_env_deletes_fail two_user_world ''+212600000001'' 1
       = (two_user_world\<lparr>
            calls := [CalendarDelete ''+212600000001'' ''evt-b''
                        (Some ''Google Calendar API error: 404 Not Found''),
                      TaskDelete ''+212600000001'' ''task-b''
                        (Some ''Todoist service error: timed out'')],
            meetings := [review_meeting\<lparr>status := ''cancelled''\<rparr>]\<rparr>,
          Inr ''Meeting cancelled successfully'')"
  by code_simp

section \<open>Context retrieval\<close>

lemma qdrant_search_subset:
  "set (qdrant_search env pts query phone limit)
     \<subseteq> {p \<in> set pts. pl_phone_number p = phone}"
proof -
  have "set (qdrant_search env pts query phone limit)
          \<subseteq> set (sort_key (\<lambda>p. - similarity env query (pt_vector p))
                     (filter (\<lambda>p. pl_phone_number p = phone) pts))"
    unfolding qdrant_search_def by (rule set_take_subset)
  then show ?thesis by auto
qed

text \<open>
  C6. Whatever the store holds, every entry that context retrieval returns for a phone
  number is the message, context and timestamp of a stored point whose payload carries
  that phone number; a point of another user contributes nothing.
\<close>

theorem context_only_from_same_user:
  "\<forall>c\<in>set (get_relevant_context env w phone message limit).
      \<exists>p\<in>set (points w). pl_phone_number p = phone \<and> c_message c = pl_message p
         \<and> c_context c = pl_context p \<and> c_timestamp c = pl_timestamp p"
proof
  fix c assume "c \<in> set (get_relevant_context env w phone message limit)"
  then obtain p where p: "p \<in> set (qdrant_search env (points w) (get_embedding env message) phone limit)"
    and c: "c = \<lparr>c_message = pl_message p, c_context = pl_context p, c_timestamp = pl_timestamp p,
                  c_score = similarity env (get_embedding env message) (pt_vector p)\<rparr>"
    by (auto simp: get_relevant_context_def Let_def split: if_splits option.splits)
  from p qdrant_search_subset have "p \<in> set (points w)" and "pl_phone_number p = phone"
    by blast+
  with c show "\<exists>p\<in>set (points w). pl_phone_number p = phone \<and> c_message c = pl_message p
         \<and> c_context c = pl_context p \<and> c_timestamp c = pl_timestamp p"
    by (intro bexI[of _ p]) simp_all
qed

lemma shared_store_run:
  "get_relevant_context demo_env shared_store ''+212600000001'' ''When is lunch?'' 5
   = [\<lparr>c_message = ''Lunch with Sara on Friday'', c_context = PDict [(''intent'', PStr ''schedule'')],
       c_timestamp = ''2025-01-03T12:00:00'', c_score = 1\<rparr>]"
  by (simp add: get_relevant_context_def get_embedding_def demo_env_def qdrant_search_def
      shared_store_def)

theorem context_only_from_same_user_witness:
  "get_relevant_context demo_env shared_store ''+212600000001'' ''When is lunch?'' 5
   = [\<lparr>c_message = ''Lunch with Sara on Friday'', c_context = PDict [(''intent'', PStr ''schedule'')],
       c_timestamp = ''2025-01-03T12:00:00'', c_score = 1\<rparr>]
   \<and> map pl_phone_number (filter (\<lambda>p. pl_message p = ''Lunch with Sara on Friday'') (points shared_store))
       = [''+212600000001'']"
  using context_only_from_same_user[of demo_env shared_store "''+212600000001''" "''When is lunch?''" 5]
    shared_store_run
  by (simp add: shared_store_def)

section \<open>The message boundary\<close>














end
